theory Spec2Isabelle
  imports Complex_Main
begin

section \<open>Python values: errors, number rendering, string joining\<close>

text \<open>
  The two source files are \<^verbatim>\<open>Clarity_api_server.py\<close> (the mock data provider) and
  \<^verbatim>\<open>Claude_desktop_automation.py\<close> (the analyzer). Python \<^verbatim>\<open>int\<close> is \<^typ>\<open>int\<close>;
  a finite Python \<^verbatim>\<open>float\<close> is the real number it denotes, so comparisons are exact
  and arithmetic is the exact one (no rounding error, no NaN, no infinity, no negative
  zero). A decimal literal of the source such as \<^verbatim>\<open>6.7\<close> is read as the decimal
  fraction.
\<close>

datatype py_error = ZeroDivisionError

text \<open>\<^verbatim>\<open>str(n)\<close> for a non-negative integer, and for any integer.\<close>

definition digit_char :: "nat \<Rightarrow> char" where
  "digit_char d = ''0123456789'' ! (d mod 10)"

function str_nat :: "nat \<Rightarrow> string" where
  "str_nat n = (if n < 10 then [digit_char n] else str_nat (n div 10) @ [digit_char (n mod 10)])"
  by pat_completeness auto
termination
  by (relation "measure (\<lambda>n. n)") auto

declare str_nat.simps [simp del]

definition str_int :: "int \<Rightarrow> string" where
  "str_int i = (if i < 0 then ''-'' @ str_nat (nat (- i)) else str_nat (nat i))"

text \<open>
  Rounding to the nearest integer, ties to the even neighbour: the rounding of
  \<^verbatim>\<open>round(x, n)\<close> and of the format \<^verbatim>\<open>:.1f\<close>.
\<close>

definition round_half_even :: "real \<Rightarrow> int" where
  "round_half_even x =
     (let f = \<lfloor>x\<rfloor>; d = x - of_int f
      in if d < 1 / 2 then f
         else if 1 / 2 < d then f + 1
         else if even f then f else f + 1)"

definition py_round :: "real \<Rightarrow> nat \<Rightarrow> real" where
  "py_round x ndigits = of_int (round_half_even (x * 10 ^ ndigits)) / 10 ^ ndigits"

text \<open>
  The format \<^verbatim>\<open>f"{x:.1f}"\<close>: sign, integer digits, a point, one decimal. It renders
  the real number; where a float's binary value is off a decimal tie that its literal
  names (\<^verbatim>\<open>0.35\<close>), Python's last digit may differ. No statement below depends on
  the digits.
\<close>

definition fmt_1f :: "real \<Rightarrow> string" where
  "fmt_1f x =
     (let n = nat (round_half_even (\<bar>x\<bar> * 10))
      in (if x < 0 then ''-'' else '''') @ str_nat (n div 10) @ ''.'' @ str_nat (n mod 10))"

text \<open>\<^verbatim>\<open>sep.join(xs)\<close>.\<close>

fun str_join :: "string \<Rightarrow> string list \<Rightarrow> string" where
  "str_join sep [] = []"
| "str_join sep [x] = x"
| "str_join sep (x # y # ys) = x @ sep @ str_join sep (y # ys)"

section \<open>The project record\<close>

text \<open>
  One record per nested JSON object of \<^verbatim>\<open>PROJECTS_DATA\<close>. The keys keep their names,
  but for \<^verbatim>\<open>id\<close>, \<^verbatim>\<open>total\<close> and \<^verbatim>\<open>size\<close> (names of the logic's own):
  \<^verbatim>\<open>p['id']\<close> is \<open>project_id\<close>, \<^verbatim>\<open>p['budget']['total']\<close> is \<open>total_budget\<close>,
  \<^verbatim>\<open>p['risks']['total']\<close> is \<open>total_risks\<close>, \<^verbatim>\<open>p['team']['size']\<close> is
  \<open>team_size\<close>; the project's \<^verbatim>\<open>priority\<close> label is \<open>project_priority\<close>, the
  name \<open>priority\<close> being kept for the rank of a recommendation.
\<close>

record budget =
  total_budget :: int
  spent :: int
  remaining :: int
  variance :: int
  variance_percentage :: real

record schedule =
  planned_duration_days :: int
  actual_duration_days :: int
  percent_complete :: int
  variance_days :: int
  milestone_completion :: string

record scope =
  original_scope_items :: int
  completed_items :: int
  in_progress_items :: int
  pending_items :: int
  scope_changes :: int
  scope_variance_percentage :: real

record health =
  overall_status :: string
  scope_status :: string
  budget_status :: string
  schedule_status :: string
  health_score :: int

record risks =
  total_risks :: int
  critical :: int
  high :: int
  medium :: int
  low :: int

record team =
  team_size :: int
  utilization :: int

record project =
  project_id :: string
  name :: string
  code :: string
  manager :: string
  sponsor :: string
  department :: string
  project_priority :: string
  start_date :: string
  planned_end_date :: string
  current_end_date :: string
  budget :: budget
  schedule :: schedule
  scope :: scope
  health :: health
  risks :: risks
  team :: team

section \<open>The data provider (Clarity\_api\_server.py)\<close>

subsection \<open>PROJECTS\_DATA\<close>

definition PRJ001 :: project where
  "PRJ001 = \<lparr>
     project_id = ''PRJ001'',
     name = ''Digital Transformation Initiative'',
     code = ''DTI-2024'',
     manager = ''John Smith'',
     sponsor = ''Sarah Williams'',
     department = ''IT'',
     project_priority = ''High'',
     start_date = ''2024-01-15'',
     planned_end_date = ''2025-06-30'',
     current_end_date = ''2025-07-12'',
     budget = \<lparr>total_budget = 750000, spent = 625000, remaining = 125000,
       variance = -30000, variance_percentage = -4.0\<rparr>,
     schedule = \<lparr>planned_duration_days = 532, actual_duration_days = 544,
       percent_complete = 68, variance_days = -12, milestone_completion = ''8/12''\<rparr>,
     scope = \<lparr>original_scope_items = 45, completed_items = 28, in_progress_items = 12,
       pending_items = 5, scope_changes = 3, scope_variance_percentage = 6.7\<rparr>,
     health = \<lparr>overall_status = ''At Risk'', scope_status = ''Yellow'',
       budget_status = ''Red'', schedule_status = ''Yellow'', health_score = 65\<rparr>,
     risks = \<lparr>total_risks = 5, critical = 2, high = 1, medium = 1, low = 1\<rparr>,
     team = \<lparr>team_size = 15, utilization = 85\<rparr>\<rparr>"

definition PRJ002 :: project where
  "PRJ002 = \<lparr>
     project_id = ''PRJ002'',
     name = ''Cloud Migration Project'',
     code = ''CMP-2024'',
     manager = ''Michael Chen'',
     sponsor = ''David Brown'',
     department = ''Infrastructure'',
     project_priority = ''High'',
     start_date = ''2024-03-01'',
     planned_end_date = ''2025-03-31'',
     current_end_date = ''2025-03-28'',
     budget = \<lparr>total_budget = 450000, spent = 280000, remaining = 170000,
       variance = 15000, variance_percentage = 3.3\<rparr>,
     schedule = \<lparr>planned_duration_days = 365, actual_duration_days = 362,
       percent_complete = 72, variance_days = 3, milestone_completion = ''6/8''\<rparr>,
     scope = \<lparr>original_scope_items = 32, completed_items = 23, in_progress_items = 7,
       pending_items = 2, scope_changes = 1, scope_variance_percentage = 3.1\<rparr>,
     health = \<lparr>overall_status = ''On Track'', scope_status = ''Green'',
       budget_status = ''Green'', schedule_status = ''Green'', health_score = 88\<rparr>,
     risks = \<lparr>total_risks = 2, critical = 0, high = 0, medium = 1, low = 1\<rparr>,
     team = \<lparr>team_size = 12, utilization = 78\<rparr>\<rparr>"

definition PRJ003 :: project where
  "PRJ003 = \<lparr>
     project_id = ''PRJ003'',
     name = ''Customer Portal Redesign'',
     code = ''CPR-2024'',
     manager = ''Emily Rodriguez'',
     sponsor = ''Robert Taylor'',
     department = ''Marketing'',
     project_priority = ''Critical'',
     start_date = ''2024-02-01'',
     planned_end_date = ''2024-11-30'',
     current_end_date = ''2024-12-25'',
     budget = \<lparr>total_budget = 320000, spent = 305000, remaining = 15000,
       variance = -20000, variance_percentage = -6.25\<rparr>,
     schedule = \<lparr>planned_duration_days = 303, actual_duration_days = 328,
       percent_complete = 85, variance_days = -25, milestone_completion = ''8/10''\<rparr>,
     scope = \<lparr>original_scope_items = 28, completed_items = 22, in_progress_items = 4,
       pending_items = 7, scope_changes = 5, scope_variance_percentage = 17.9\<rparr>,
     health = \<lparr>overall_status = ''Critical'', scope_status = ''Red'',
       budget_status = ''Red'', schedule_status = ''Red'', health_score = 42\<rparr>,
     risks = \<lparr>total_risks = 8, critical = 4, high = 2, medium = 1, low = 1\<rparr>,
     team = \<lparr>team_size = 10, utilization = 95\<rparr>\<rparr>"

definition PRJ004 :: project where
  "PRJ004 = \<lparr>
     project_id = ''PRJ004'',
     name = ''Data Warehouse Modernization'',
     code = ''DWM-2024'',
     manager = ''James Wilson'',
     sponsor = ''Linda Martinez'',
     department = ''Data Analytics'',
     project_priority = ''Medium'',
     start_date = ''2024-04-15'',
     planned_end_date = ''2025-08-15'',
     current_end_date = ''2025-08-15'',
     budget = \<lparr>total_budget = 580000, spent = 385000, remaining = 195000,
       variance = 15000, variance_percentage = 2.6\<rparr>,
     schedule = \<lparr>planned_duration_days = 488, actual_duration_days = 488,
       percent_complete = 55, variance_days = 0, milestone_completion = ''8/15''\<rparr>,
     scope = \<lparr>original_scope_items = 52, completed_items = 28, in_progress_items = 18,
       pending_items = 6, scope_changes = 2, scope_variance_percentage = 3.8\<rparr>,
     health = \<lparr>overall_status = ''On Track'', scope_status = ''Green'',
       budget_status = ''Green'', schedule_status = ''Green'', health_score = 92\<rparr>,
     risks = \<lparr>total_risks = 3, critical = 1, high = 0, medium = 1, low = 1\<rparr>,
     team = \<lparr>team_size = 18, utilization = 68\<rparr>\<rparr>"

definition PRJ005 :: project where
  "PRJ005 = \<lparr>
     project_id = ''PRJ005'',
     name = ''Mobile App Development'',
     code = ''MAD-2024'',
     manager = ''Amanda Lee'',
     sponsor = ''Thomas Anderson'',
     department = ''Product'',
     project_priority = ''High'',
     start_date = ''2024-05-01'',
     planned_end_date = ''2025-02-28'',
     current_end_date = ''2025-03-08'',
     budget = \<lparr>total_budget = 420000, spent = 310000, remaining = 110000,
       variance = -5000, variance_percentage = -1.2\<rparr>,
     schedule = \<lparr>planned_duration_days = 304, actual_duration_days = 312,
       percent_complete = 62, variance_days = -8, milestone_completion = ''5/9''\<rparr>,
     scope = \<lparr>original_scope_items = 38, completed_items = 23, in_progress_items = 11,
       pending_items = 8, scope_changes = 4, scope_variance_percentage = 10.5\<rparr>,
     health = \<lparr>overall_status = ''At Risk'', scope_status = ''Yellow'',
       budget_status = ''Yellow'', schedule_status = ''Yellow'', health_score = 58\<rparr>,
     risks = \<lparr>total_risks = 4, critical = 1, high = 1, medium = 1, low = 1\<rparr>,
     team = \<lparr>team_size = 14, utilization = 82\<rparr>\<rparr>"

definition PROJECTS_DATA :: "project list" where
  "PROJECTS_DATA = [PRJ001, PRJ002, PRJ003, PRJ004, PRJ005]"

subsection \<open>Responses\<close>

text \<open>
  A response is the JSON body with its HTTP status. The body of a success is
  \<^verbatim>\<open>{"success": True, "timestamp": ..., "data": ...}\<close>, the body of a failure is
  \<^verbatim>\<open>{"success": False, "error": ...}\<close>. The clock (\<^verbatim>\<open>datetime.now().isoformat()\<close>) is
  an argument of every handler, and so is the collection the handlers read (the module's
  global \<^verbatim>\<open>PROJECTS_DATA\<close>).
\<close>

datatype 'a body = Success_body (timestamp: string) (data: 'a) | Error_body (error: string)

type_synonym 'a response = "'a body \<times> nat"

definition success :: "'a body \<Rightarrow> bool" where
  "success b = (case b of Success_body t d \<Rightarrow> True | Error_body e \<Rightarrow> False)"

text \<open>
  \<^verbatim>\<open>get_project\<close>: \<^verbatim>\<open>next((p for p in PROJECTS_DATA if p['id'] == project_id), None)\<close>
  is the first project with the identifier. The test \<^verbatim>\<open>if project:\<close> is on a
  dictionary with sixteen keys, which is never empty.
\<close>

definition get_project :: "string \<Rightarrow> project list \<Rightarrow> string \<Rightarrow> project response" where
  "get_project now ps pid =
     (case find (\<lambda>p. project_id p = pid) ps of
        Some project \<Rightarrow> (Success_body now project, 200)
      | None \<Rightarrow> (Error_body ''Project not found'', 404))"

subsection \<open>The portfolio health aggregate\<close>

record health_scope =
  projects_with_variance :: nat
  average_variance :: real

record health_budget =
  projects_over_budget :: nat
  total_variance :: int
  average_variance_percentage :: real

record health_schedule =
  projects_behind :: nat
  average_variance_days :: real

record portfolio_health =
  scope_h :: health_scope
  budget_h :: health_budget
  schedule_h :: health_schedule

text \<open>
  \<^verbatim>\<open>get_portfolio_health\<close>. The three counts are computed first; the averages divide
  by \<^verbatim>\<open>len(PROJECTS_DATA)\<close> while the body is built, which raises on an empty
  collection. The keys \<^verbatim>\<open>scope\<close>, \<^verbatim>\<open>budget\<close> and \<^verbatim>\<open>schedule\<close> of the aggregate are
  the fields \<open>scope_h\<close>, \<open>budget_h\<close> and \<open>schedule_h\<close>.
\<close>

definition get_portfolio_health ::
  "string \<Rightarrow> project list \<Rightarrow> py_error + portfolio_health response" where
  "get_portfolio_health now ps =
     (let projects_over_budget = length (filter (\<lambda>p. variance (budget p) < 0) ps);
          projects_behind_schedule = length (filter (\<lambda>p. variance_days (schedule p) < 0) ps);
          projects_scope_variance =
            length (filter (\<lambda>p. 5 < scope_variance_percentage (scope p)) ps)
      in if length ps = 0 then Inl ZeroDivisionError
         else Inr (Success_body now
           \<lparr>scope_h = \<lparr>
              projects_with_variance = projects_scope_variance,
              average_variance =
                py_round (sum_list (map (\<lambda>p. scope_variance_percentage (scope p)) ps)
                          / real (length ps)) 2\<rparr>,
            budget_h = \<lparr>
              projects_over_budget = projects_over_budget,
              total_variance = sum_list (map (\<lambda>p. variance (budget p)) ps),
              average_variance_percentage =
                py_round (sum_list (map (\<lambda>p. variance_percentage (budget p)) ps)
                          / real (length ps)) 2\<rparr>,
            schedule_h = \<lparr>
              projects_behind = projects_behind_schedule,
              average_variance_days =
                py_round (real_of_int (sum_list (map (\<lambda>p. variance_days (schedule p)) ps))
                          / real (length ps)) 1\<rparr>\<rparr>, 200))"

section \<open>The analyzer (Claude\_desktop\_automation.py)\<close>

subsection \<open>Per-project dimension assessors\<close>

text \<open>
  \<^verbatim>\<open>_assess_scope\<close>, \<^verbatim>\<open>_assess_budget\<close> and \<^verbatim>\<open>_assess_timeline\<close> return the narrative
  string. \<^verbatim>\<open>_assess_budget\<close> computes the utilization before it looks at the
  variance, so a zero total raises in every tier. A parameter whose name is a constant
  of this theory or of the logic is renamed: \<open>variance'\<close>, \<open>variance_days'\<close>,
  \<open>total'\<close>, \<open>spent_amount\<close> for \<^verbatim>\<open>spent\<close>, and below \<open>critical_ps\<close> for
  \<^verbatim>\<open>critical\<close>.
\<close>

definition assess_scope :: "real \<Rightarrow> int \<Rightarrow> string" where
  "assess_scope variance' changes =
     (if 15 < variance' then
        ''CRITICAL: Scope has grown '' @ fmt_1f variance' @ ''% with '' @ str_int changes
          @ '' change requests. Significant scope creep detected.''
      else if 5 < variance' then
        ''WARNING: Scope variance of '' @ fmt_1f variance' @ ''% with '' @ str_int changes
          @ '' changes. Monitor closely to prevent further creep.''
      else
        ''HEALTHY: Scope is well-controlled with only '' @ fmt_1f variance' @ ''% variance.'')"



text \<open>The tier of a narrative is its label: the text before the first colon.\<close>

definition tier :: "string \<Rightarrow> string" where
  "tier narrative = takeWhile (\<lambda>c. c \<noteq> CHR '':'') narrative"

subsection \<open>The analyzer's state\<close>

text \<open>
  The fields of \<^verbatim>\<open>ClarityPPMAnalyzer\<close> that the functions below read:
  \<^verbatim>\<open>self.projects\<close> and the \<^verbatim>\<open>data\<close> member of the health response,
  \<^verbatim>\<open>self.portfolio_health\<close>. They are read after \<^verbatim>\<open>fetch_data\<close> has filled them
  (\<^verbatim>\<open>main\<close> stops when it has not).
\<close>

record analyzer =
  projects :: "project list"
  portfolio_health :: portfolio_health

text \<open>The two selections \<^verbatim>\<open>generate_insights\<close> makes before it calls the rest.\<close>

definition critical_projects :: "analyzer \<Rightarrow> project list" where
  "critical_projects self =
     filter (\<lambda>p. overall_status (health p) = ''Critical'') (projects self)"

definition at_risk_projects :: "analyzer \<Rightarrow> project list" where
  "at_risk_projects self =
     filter (\<lambda>p. overall_status (health p) = ''At Risk'') (projects self)"

subsection \<open>Key concerns\<close>

record concern_entry =
  severity :: string
  concern :: string
  details :: string
  action :: string

definition identify_key_concerns ::
  "analyzer \<Rightarrow> project list \<Rightarrow> project list \<Rightarrow> concern_entry list" where
  "identify_key_concerns self critical_ps at_risk =
     (let concerns0 = [];
          concerns1 =
            (if critical_ps \<noteq> [] then
               concerns0 @ [\<lparr>
                 severity = ''Critical'',
                 concern = str_nat (length critical_ps)
                   @ '' Critical Projects Requiring Immediate Attention'',
                 details = ''Projects in critical status: ''
                   @ str_join '', '' (map name critical_ps),
                 action = ''Executive review and intervention required within 48 hours''\<rparr>]
             else concerns0);
          concerns2 =
            (if at_risk \<noteq> [] then
               concerns1 @ [\<lparr>
                 severity = ''High'',
                 concern = str_nat (length at_risk) @ '' Projects At Risk'',
                 details = ''At-risk projects: '' @ str_join '', '' (map name at_risk),
                 action = ''Enhanced monitoring and corrective action plans needed''\<rparr>]
             else concerns1);
          budget_issues = filter (\<lambda>p. variance (budget p) < -10000) (projects self)
      in if budget_issues \<noteq> [] then
           concerns2 @ [\<lparr>
             severity = ''High'',
             concern = ''Significant Budget Overruns'',
             details = str_nat (length budget_issues)
               @ '' projects with budget variance exceeding $10K'',
             action = ''Financial review and budget reforecast required''\<rparr>]
         else concerns2)"

subsection \<open>Portfolio timeline analysis\<close>

record timeline_analysis =
  summary :: string
  projects_behind :: nat
  average_variance_days :: real
  projects_with_issues :: "string list"
  recommendation :: string

definition analyze_portfolio_timeline :: "analyzer \<Rightarrow> timeline_analysis" where
  "analyze_portfolio_timeline self =
     (let behind_schedule = filter (\<lambda>p. variance_days (schedule p) < -5) (projects self);
          avg_variance = health_schedule.average_variance_days (schedule_h (portfolio_health self))
      in \<lparr>summary = str_nat (length behind_schedule)
             @ '' projects significantly behind schedule (>5 days)'',
          projects_behind = length behind_schedule,
          average_variance_days = avg_variance,
          projects_with_issues = map name behind_schedule,
          recommendation =
            (if 2 < length behind_schedule then ''Resource reallocation assessment required''
             else ''Schedule performance acceptable'')\<rparr>)"

subsection \<open>Recommendations\<close>

record recommendation_entry =
  priority :: int
  recommendation :: string
  rationale :: string
  actions :: "string list"
  timeline :: string

definition generate_recommendations ::
  "analyzer \<Rightarrow> project list \<Rightarrow> project list \<Rightarrow> recommendation_entry list" where
  "generate_recommendations self critical_ps at_risk =
     (let recommendations0 = [];
          recommendations1 =
            (if critical_ps \<noteq> [] then
               recommendations0 @ [\<lparr>
                 priority = 1,
                 recommendation = ''Emergency Portfolio Review'',
                 rationale = str_nat (length critical_ps)
                   @ '' projects in critical status requiring immediate executive intervention'',
                 actions = [
                   ''Schedule emergency steering committee meeting within 48 hours'',
                   ''Develop recovery plans for each critical project'',
                   ''Assess resource reallocation options'',
                   ''Determine go/no-go decisions''],
                 timeline = ''Immediate (Within 48 hours)''\<rparr>]
             else recommendations0);
          recommendations2 =
            (if 1 < length at_risk then
               recommendations1 @ [\<lparr>
                 priority = 2,
                 recommendation = ''Enhanced Project Monitoring'',
                 rationale = str_nat (length at_risk) @ '' at-risk projects need closer oversight'',
                 actions = [
                   ''Increase reporting frequency to weekly'',
                   ''Assign executive sponsors to at-risk projects'',
                   ''Implement early warning indicators'',
                   ''Review and update risk mitigation plans''],
                 timeline = ''Within 1 week''\<rparr>]
             else recommendations1)
      in if 2 < projects_over_budget (budget_h (portfolio_health self)) then
           recommendations2 @ [\<lparr>
             priority = 3,
             recommendation = ''Portfolio Budget Reforecast'',
             rationale = ''Multiple projects over budget indicating systemic estimation issues'',
             actions = [
               ''Conduct comprehensive budget review'',
               ''Update forecast-to-complete estimates'',
               ''Identify potential funding gaps'',
               ''Implement tighter cost controls''],
             timeline = ''Within 2 weeks''\<rparr>]
         else recommendations2)"

subsection \<open>The calls of generate\_insights\<close>

text \<open>
  \<^verbatim>\<open>generate_insights\<close> passes the two selections of \<^verbatim>\<open>self.projects\<close> to the concern
  identifier and to the recommendation ranker; these are its entries
  \<^verbatim>\<open>key_concerns\<close> and \<^verbatim>\<open>recommendations\<close>.
\<close>

definition insights_key_concerns :: "analyzer \<Rightarrow> concern_entry list" where
  "insights_key_concerns self =
     identify_key_concerns self (critical_projects self) (at_risk_projects self)"

definition insights_recommendations :: "analyzer \<Rightarrow> recommendation_entry list" where
  "insights_recommendations self =
     generate_recommendations self (critical_projects self) (at_risk_projects self)"

section \<open>The invariant of a project record\<close>

text \<open>
  The invariant as the specification words it: the remaining budget is the total less
  the amount spent, the three item counts sum to at most the original item count, and
  the percentages that are not variances (\<^verbatim>\<open>percent_complete\<close> and the team's
  \<^verbatim>\<open>utilization\<close>) lie between 0 and 100.
\<close>

definition spec_record_invariant :: "project \<Rightarrow> bool" where
  "spec_record_invariant p \<longleftrightarrow>
     remaining (budget p) = total_budget (budget p) - spent (budget p) \<and>
     completed_items (scope p) + in_progress_items (scope p) + pending_items (scope p)
       \<le> original_scope_items (scope p) \<and>
     0 \<le> percent_complete (schedule p) \<and> percent_complete (schedule p) \<le> 100 \<and>
     0 \<le> utilization (team p) \<and> utilization (team p) \<le> 100"

text \<open>
  The invariant the sample data has: the item counts may exceed the original count by
  the number of scope changes.
\<close>

definition record_invariant :: "project \<Rightarrow> bool" where
  "record_invariant p \<longleftrightarrow>
     remaining (budget p) = total_budget (budget p) - spent (budget p) \<and>
     completed_items (scope p) + in_progress_items (scope p) + pending_items (scope p)
       \<le> original_scope_items (scope p) + scope_changes (scope p) \<and>
     0 \<le> percent_complete (schedule p) \<and> percent_complete (schedule p) \<le> 100 \<and>
     0 \<le> utilization (team p) \<and> utilization (team p) \<le> 100"

section \<open>Reading the sample data\<close>

lemma PRJ_ids:
  "project_id PRJ001 = ''PRJ001''" "project_id PRJ002 = ''PRJ002''"
  "project_id PRJ003 = ''PRJ003''" "project_id PRJ004 = ''PRJ004''"
  "project_id PRJ005 = ''PRJ005''"
  by (simp_all add: PRJ001_def PRJ002_def PRJ003_def PRJ004_def PRJ005_def)

lemma PRJ_status:
  "overall_status (health PRJ001) = ''At Risk''" "overall_status (health PRJ002) = ''On Track''"
  "overall_status (health PRJ003) = ''Critical''" "overall_status (health PRJ004) = ''On Track''"
  "overall_status (health PRJ005) = ''At Risk''"
  by (simp_all add: PRJ001_def PRJ002_def PRJ003_def PRJ004_def PRJ005_def)

lemma PRJ_name:
  "name PRJ001 = ''Digital Transformation Initiative''" "name PRJ002 = ''Cloud Migration Project''"
  "name PRJ003 = ''Customer Portal Redesign''" "name PRJ004 = ''Data Warehouse Modernization''"
  "name PRJ005 = ''Mobile App Development''"
  by (simp_all add: PRJ001_def PRJ002_def PRJ003_def PRJ004_def PRJ005_def)

lemma PRJ_budget_variance:
  "variance (budget PRJ001) = -30000" "variance (budget PRJ002) = 15000"
  "variance (budget PRJ003) = -20000" "variance (budget PRJ004) = 15000"
  "variance (budget PRJ005) = -5000"
  by (simp_all add: PRJ001_def PRJ002_def PRJ003_def PRJ004_def PRJ005_def)

lemma str_nat_digit: "n < 10 \<Longrightarrow> str_nat n = [digit_char n]"
  by (simp add: str_nat.simps)

lemma filter_nonempty_iff: "filter P xs \<noteq> [] \<longleftrightarrow> (\<exists>x\<in>set xs. P x)"
  by (simp add: filter_empty_conv)

section \<open>The dimension assessors\<close>

text \<open>
  C1. For every scope variance \<open>v\<close> and change count \<open>c\<close>, the narrative of
  \<^verbatim>\<open>_assess_scope\<close> is in the CRITICAL tier exactly when \<open>15 < v\<close>, in the WARNING tier
  exactly when \<open>5 < v \<le> 15\<close>, and in the HEALTHY tier exactly when \<open>v \<le> 5\<close>; at
  \<open>v = 5\<close> it is HEALTHY and at \<open>v = 15\<close> it is WARNING.
\<close>

theorem assess_scope_tiers:
  "(tier (assess_scope v c) = ''CRITICAL'' \<longleftrightarrow> 15 < v) \<and>
   (tier (assess_scope v c) = ''WARNING'' \<longleftrightarrow> 5 < v \<and> v \<le> 15) \<and>
   (tier (assess_scope v c) = ''HEALTHY'' \<longleftrightarrow> v \<le> 5) \<and>
   tier (assess_scope 5 c) = ''HEALTHY'' \<and>
   tier (assess_scope 15 c) = ''WARNING''"
  by (simp add: assess_scope_def tier_def)




section \<open>The recommendation ranker\<close>

lemma priority_generate_recommendations:
  "map priority (generate_recommendations self cs rs) =
     (if cs \<noteq> [] then [1] else []) @
     (if 1 < length rs then [2] else []) @
     (if 2 < projects_over_budget (budget_h (portfolio_health self)) then [3] else [])"
  by (simp add: generate_recommendations_def Let_def)

lemma priority_insights_recommendations:
  "map priority (insights_recommendations self) =
     (if \<exists>p\<in>set (projects self). overall_status (health p) = ''Critical'' then [1] else []) @
     (if 1 < length (filter (\<lambda>p. overall_status (health p) = ''At Risk'') (projects self))
      then [2] else []) @
     (if 2 < projects_over_budget (budget_h (portfolio_health self)) then [3] else [])"
  unfolding insights_recommendations_def priority_generate_recommendations
    critical_projects_def at_risk_projects_def filter_nonempty_iff
  by simp

lemma priority_mem_iff:
  "(\<exists>r\<in>set rs. priority r = k) \<longleftrightarrow> k \<in> set (map priority rs)"
  unfolding set_map image_iff by (rule bex_cong) auto

text \<open>
  C4. For every state of the analyzer, the priorities of the recommendations are, in
  this order, 1 when some project is Critical, 2 when more than one project is At Risk,
  3 when the aggregate's count of projects over budget exceeds 2, each present exactly
  when its own trigger holds; the list is in ascending order without repetition, and it
  is empty exactly when no trigger holds.
\<close>

theorem recommendations_triggers:
  "map priority (insights_recommendations self) =
     (if \<exists>p\<in>set (projects self). overall_status (health p) = ''Critical'' then [1] else []) @
     (if 1 < length (filter (\<lambda>p. overall_status (health p) = ''At Risk'') (projects self))
      then [2] else []) @
     (if 2 < projects_over_budget (budget_h (portfolio_health self)) then [3] else []) \<and>
   ((\<exists>r\<in>set (insights_recommendations self). priority r = 1) \<longleftrightarrow>
      (\<exists>p\<in>set (projects self). overall_status (health p) = ''Critical'')) \<and>
   ((\<exists>r\<in>set (insights_recommendations self). priority r = 2) \<longleftrightarrow>
      1 < length (filter (\<lambda>p. overall_status (health p) = ''At Risk'') (projects self))) \<and>
   ((\<exists>r\<in>set (insights_recommendations self). priority r = 3) \<longleftrightarrow>
      2 < projects_over_budget (budget_h (portfolio_health self))) \<and>
   sorted (map priority (insights_recommendations self)) \<and>
   distinct (map priority (insights_recommendations self)) \<and>
   (insights_recommendations self = [] \<longleftrightarrow>
      (\<nexists>p. p \<in> set (projects self) \<and> overall_status (health p) = ''Critical'') \<and>
      length (filter (\<lambda>p. overall_status (health p) = ''At Risk'') (projects self)) \<le> 1 \<and>
      projects_over_budget (budget_h (portfolio_health self)) \<le> 2)"
proof -
  let ?m = "map priority (insights_recommendations self)"
  have e: "insights_recommendations self = [] \<longleftrightarrow> ?m = []"
    by simp
  show ?thesis
    unfolding priority_mem_iff e
    unfolding priority_insights_recommendations
    by auto
qed

section \<open>The concern identifier\<close>

lemma severity_identify_key_concerns:
  "map severity (identify_key_concerns self cs rs) =
     (if cs \<noteq> [] then [''Critical''] else []) @
     (if rs \<noteq> [] then [''High''] else []) @
     (if filter (\<lambda>p. variance (budget p) < -10000) (projects self) \<noteq> [] then [''High'']
      else [])"
  by (simp add: identify_key_concerns_def Let_def)


lemma critical_concern_iff:
  "(\<exists>c\<in>set (insights_key_concerns self). severity c = ''Critical'') \<longleftrightarrow>
   (\<exists>p\<in>set (projects self). overall_status (health p) = ''Critical'')"
proof -
  have "(\<exists>c\<in>set (insights_key_concerns self). severity c = ''Critical'') \<longleftrightarrow>
        ''Critical'' \<in> set (map severity (insights_key_concerns self))"
    unfolding set_map image_iff by (rule bex_cong) auto
  also have "\<dots> \<longleftrightarrow> critical_projects self \<noteq> []"
    unfolding insights_key_concerns_def severity_identify_key_concerns by simp
  also have "\<dots> \<longleftrightarrow> (\<exists>p\<in>set (projects self). overall_status (health p) = ''Critical'')"
    by (simp add: critical_projects_def filter_nonempty_iff)
  finally show ?thesis .
qed

lemma critical_projects_sample:
  "critical_projects \<lparr>projects = PROJECTS_DATA, portfolio_health = h\<rparr> = [PRJ003]"
  by (simp add: critical_projects_def PROJECTS_DATA_def PRJ_status)

lemma at_risk_projects_sample:
  "at_risk_projects \<lparr>projects = PROJECTS_DATA, portfolio_health = h\<rparr> = [PRJ001, PRJ005]"
  by (simp add: at_risk_projects_def PROJECTS_DATA_def PRJ_status)


text \<open>
  C7. On the five sample projects the concerns are: the Critical concern whose details
  name Customer Portal Redesign alone; then the High concern whose details name
  Digital Transformation Initiative and Mobile App Development, in this order; then the
  High concern of the budget overruns.
\<close>

theorem sample_key_concerns:
  "insights_key_concerns \<lparr>projects = PROJECTS_DATA, portfolio_health = h\<rparr> =
     [\<lparr>severity = ''Critical'',
       concern = ''1 Critical Projects Requiring Immediate Attention'',
       details = ''Projects in critical status: Customer Portal Redesign'',
       action = ''Executive review and intervention required within 48 hours''\<rparr>,
      \<lparr>severity = ''High'',
       concern = ''2 Projects At Risk'',
       details = ''At-risk projects: Digital Transformation Initiative, Mobile App Development'',
       action = ''Enhanced monitoring and corrective action plans needed''\<rparr>,
      \<lparr>severity = ''High'',
       concern = ''Significant Budget Overruns'',
       details = ''2 projects with budget variance exceeding $10K'',
       action = ''Financial review and budget reforecast required''\<rparr>]"
  unfolding insights_key_concerns_def critical_projects_sample at_risk_projects_sample
  by (simp add: identify_key_concerns_def Let_def PROJECTS_DATA_def PRJ_name
      PRJ_budget_variance str_nat_digit digit_char_def)

text \<open>
  C9. When no project of a collection is Critical, the Critical concern is absent, and
  it appears once a Critical project is put anywhere into the collection; for every
  collection, it is absent once all Critical projects are taken out.
\<close>

theorem critical_concern_monotonic:
  assumes "\<forall>p\<in>set (ps1 @ ps2). overall_status (health p) \<noteq> ''Critical''"
    and "overall_status (health q) = ''Critical''"
  shows "\<not> (\<exists>c\<in>set (insights_key_concerns (self\<lparr>projects := ps1 @ ps2\<rparr>)).
             severity c = ''Critical'') \<and>
         (\<exists>c\<in>set (insights_key_concerns (self\<lparr>projects := ps1 @ q # ps2\<rparr>)).
             severity c = ''Critical'') \<and>
         \<not> (\<exists>c\<in>set (insights_key_concerns
               (self\<lparr>projects := filter (\<lambda>p. overall_status (health p) \<noteq> ''Critical'') ps\<rparr>)).
             severity c = ''Critical'')"
  using assms unfolding critical_concern_iff by auto

theorem critical_concern_monotonic_witness:
  "overall_status (health PRJ002) \<noteq> ''Critical'' \<and>
   overall_status (health PRJ004) \<noteq> ''Critical'' \<and>
   overall_status (health PRJ003) = ''Critical'' \<and>
   \<not> (\<exists>c\<in>set (insights_key_concerns
         \<lparr>projects = [PRJ002, PRJ004],
          portfolio_health = \<lparr>
            scope_h = \<lparr>projects_with_variance = 0, average_variance = 3.45\<rparr>,
            budget_h = \<lparr>projects_over_budget = 0, total_variance = 30000,
              average_variance_percentage = 2.95\<rparr>,
            schedule_h = \<lparr>health_schedule.projects_behind = 0,
              health_schedule.average_variance_days = 1.5\<rparr>\<rparr>\<rparr>).
        severity c = ''Critical'') \<and>
   (\<exists>c\<in>set (insights_key_concerns
         \<lparr>projects = [PRJ002, PRJ003, PRJ004],
          portfolio_health = \<lparr>
            scope_h = \<lparr>projects_with_variance = 0, average_variance = 3.45\<rparr>,
            budget_h = \<lparr>projects_over_budget = 0, total_variance = 30000,
              average_variance_percentage = 2.95\<rparr>,
            schedule_h = \<lparr>health_schedule.projects_behind = 0,
              health_schedule.average_variance_days = 1.5\<rparr>\<rparr>\<rparr>).
        severity c = ''Critical'')"
proof -
  let ?self = "\<lparr>projects = [PRJ002, PRJ004],
          portfolio_health = \<lparr>
            scope_h = \<lparr>projects_with_variance = 0, average_variance = 3.45\<rparr>,
            budget_h = \<lparr>projects_over_budget = 0, total_variance = 30000,
              average_variance_percentage = 2.95\<rparr>,
            schedule_h = \<lparr>health_schedule.projects_behind = 0,
              health_schedule.average_variance_days = 1.5\<rparr>\<rparr>\<rparr>"
  have none: "\<forall>p\<in>set ([PRJ002] @ [PRJ004]). overall_status (health p) \<noteq> ''Critical''"
    by (simp add: PRJ_status)
  have crit: "overall_status (health PRJ003) = ''Critical''"
    by (simp add: PRJ_status)
  from critical_concern_monotonic [OF none crit, of ?self "[]"] none crit
  show ?thesis by simp
qed

section \<open>The data provider\<close>

lemma get_project_found:
  "find (\<lambda>p. project_id p = pid) ps = Some p \<Longrightarrow> p \<in> set ps \<and> project_id p = pid"
  by (auto simp: find_Some_iff)

lemma get_project_served:
  assumes "get_project now ps pid = (Success_body now p, 200)"
  shows "p \<in> set ps \<and> project_id p = pid"
proof -
  from assms have "find (\<lambda>p. project_id p = pid) ps = Some p"
    by (simp add: get_project_def split: option.splits)
  then show ?thesis
    by (rule get_project_found)
qed

text \<open>
  C8. For every collection and identifier, \<^verbatim>\<open>get_project\<close> answers with a success
  that carries a project of the collection with this identifier exactly when the
  collection has one, and with the not-found body and status 404 exactly when it has
  none; the success flag tells the two apart.
\<close>

theorem get_project_found_iff:
  "((\<exists>p\<in>set ps. project_id p = pid) \<longleftrightarrow>
      (\<exists>p. get_project now ps pid = (Success_body now p, 200) \<and>
           p \<in> set ps \<and> project_id p = pid)) \<and>
   ((\<not> (\<exists>p\<in>set ps. project_id p = pid)) \<longleftrightarrow>
      get_project now ps pid = (Error_body ''Project not found'', 404)) \<and>
   (success (fst (get_project now ps pid)) \<longleftrightarrow> (\<exists>p\<in>set ps. project_id p = pid))"
proof (cases "find (\<lambda>p. project_id p = pid) ps")
  case None
  then have "\<not> (\<exists>p\<in>set ps. project_id p = pid)"
    by (simp add: find_None_iff)
  with None show ?thesis
    by (simp add: get_project_def success_def)
next
  case (Some p)
  then have "p \<in> set ps \<and> project_id p = pid"
    by (rule get_project_found)
  with Some show ?thesis
    by (auto simp: get_project_def success_def)
qed

subsection \<open>The invariant on the sample data\<close>

lemma PRJ_record_invariant:
  "record_invariant PRJ001" "record_invariant PRJ002" "record_invariant PRJ003"
  "record_invariant PRJ004" "record_invariant PRJ005"
  by (simp_all add: record_invariant_def PRJ001_def PRJ002_def PRJ003_def PRJ004_def PRJ005_def)

lemma PRJ_spec_record_invariant:
  "spec_record_invariant PRJ001" "spec_record_invariant PRJ002"
  "\<not> spec_record_invariant PRJ003" "spec_record_invariant PRJ004"
  "\<not> spec_record_invariant PRJ005"
  by (simp_all add: spec_record_invariant_def
      PRJ001_def PRJ002_def PRJ003_def PRJ004_def PRJ005_def)

lemma PROJECTS_DATA_invariant: "list_all record_invariant PROJECTS_DATA"
  by (simp add: PROJECTS_DATA_def PRJ_record_invariant)

lemma spec_invariant_holders:
  "filter spec_record_invariant PROJECTS_DATA = [PRJ001, PRJ002, PRJ004]"
  by (simp add: PROJECTS_DATA_def PRJ_spec_record_invariant)

text \<open>
  C6, as the specification states it, fails: PRJ003 is served, and its completed, in
  progress and pending items sum to 33, above its 28 original items.
\<close>

theorem sample_scope_counts_exceed_original:
  "PRJ003 \<in> set PROJECTS_DATA \<and> \<not> spec_record_invariant PRJ003 \<and>
   completed_items (scope PRJ003) + in_progress_items (scope PRJ003)
     + pending_items (scope PRJ003) = 33 \<and>
   original_scope_items (scope PRJ003) = 28"
proof -
  have "PRJ003 \<in> set PROJECTS_DATA"
    by (simp add: PROJECTS_DATA_def)
  moreover have "completed_items (scope PRJ003) + in_progress_items (scope PRJ003)
     + pending_items (scope PRJ003) = 33 \<and> original_scope_items (scope PRJ003) = 28"
    by (simp add: PRJ003_def)
  moreover note PRJ_spec_record_invariant(3)
  ultimately show ?thesis by blast
qed

text \<open>
  C6, amended. Every record of \<^verbatim>\<open>PROJECTS_DATA\<close>, and so every record
  \<^verbatim>\<open>get_project\<close> serves from it, has the remaining budget equal to the total less the
  amount spent, item counts that sum to at most the original item count plus the number
  of scope changes, and \<^verbatim>\<open>percent_complete\<close> and team \<^verbatim>\<open>utilization\<close> between 0 and
  100. The bound by the original count alone holds for PRJ001, PRJ002 and PRJ004 only.
\<close>

theorem served_records_invariant:
  "list_all record_invariant PROJECTS_DATA \<and>
   filter spec_record_invariant PROJECTS_DATA = [PRJ001, PRJ002, PRJ004] \<and>
   (get_project now PROJECTS_DATA pid = (Success_body now p, 200) \<longrightarrow> record_invariant p)"
proof -
  have "record_invariant p" if "get_project now PROJECTS_DATA pid = (Success_body now p, 200)"
  proof -
    from that have "p \<in> set PROJECTS_DATA"
      by (rule get_project_served [THEN conjunct1])
    with PROJECTS_DATA_invariant show ?thesis
      by (simp add: list_all_iff)
  qed
  with PROJECTS_DATA_invariant spec_invariant_holders show ?thesis
    by blast
qed

theorem served_records_invariant_witness:
  "get_project ''t'' PROJECTS_DATA ''PRJ003'' = (Success_body ''t'' PRJ003, 200) \<and>
   record_invariant PRJ003"
proof -
  have g: "get_project ''t'' PROJECTS_DATA ''PRJ003'' = (Success_body ''t'' PRJ003, 200)"
    by (simp add: get_project_def PROJECTS_DATA_def PRJ_ids)
  from served_records_invariant [of "''t''" "''PRJ003''" PRJ003] g
  have "record_invariant PRJ003" by blast
  with g show ?thesis by blast
qed

section \<open>Two cutoffs for a project behind schedule\<close>

lemma length_filter_split:
  "length (filter (\<lambda>p. f p < (0::int)) ps) =
     length (filter (\<lambda>p. f p < -5) ps) + length (filter (\<lambda>p. -5 \<le> f p \<and> f p < 0) ps)"
  by (induction ps) auto

lemma get_portfolio_health_behind:
  assumes "ps \<noteq> []"
  shows "\<exists>h. get_portfolio_health now ps = Inr (Success_body now h, 200) \<and>
     health_schedule.projects_behind (schedule_h h) =
       length (filter (\<lambda>p. variance_days (schedule p) < 0) ps)"
  using assms by (simp add: get_portfolio_health_def Let_def)

lemma analyze_portfolio_timeline_behind:
  "timeline_analysis.projects_behind (analyze_portfolio_timeline self) =
     length (filter (\<lambda>p. variance_days (schedule p) < -5) (projects self))"
  by (simp add: analyze_portfolio_timeline_def Let_def)

text \<open>
  C10. On a collection that is not empty, \<^verbatim>\<open>get_portfolio_health\<close> returns an
  aggregate whose \<^verbatim>\<open>projects_behind\<close> counts the projects with \<open>variance_days < 0\<close>,
  while \<^verbatim>\<open>_analyze_portfolio_timeline\<close>, on the same collection and aggregate, counts
  those with \<open>variance_days < -5\<close>; the two counts differ exactly when some project has
  \<open>-5 \<le> variance_days < 0\<close>.
\<close>

theorem behind_schedule_cutoffs:
  assumes "ps \<noteq> []"
  shows "\<exists>h. get_portfolio_health now ps = Inr (Success_body now h, 200) \<and>
     health_schedule.projects_behind (schedule_h h) =
       length (filter (\<lambda>p. variance_days (schedule p) < 0) ps) \<and>
     timeline_analysis.projects_behind
         (analyze_portfolio_timeline \<lparr>projects = ps, portfolio_health = h\<rparr>) =
       length (filter (\<lambda>p. variance_days (schedule p) < -5) ps) \<and>
     (health_schedule.projects_behind (schedule_h h) \<noteq>
      timeline_analysis.projects_behind
         (analyze_portfolio_timeline \<lparr>projects = ps, portfolio_health = h\<rparr>) \<longleftrightarrow>
      (\<exists>p\<in>set ps. -5 \<le> variance_days (schedule p) \<and> variance_days (schedule p) < 0))"
proof -
  from assms obtain h where h: "get_portfolio_health now ps = Inr (Success_body now h, 200)"
    and s: "health_schedule.projects_behind (schedule_h h) =
       length (filter (\<lambda>p. variance_days (schedule p) < 0) ps)"
    using get_portfolio_health_behind by blast
  let ?a = "timeline_analysis.projects_behind
         (analyze_portfolio_timeline \<lparr>projects = ps, portfolio_health = h\<rparr>)"
  let ?mid = "filter (\<lambda>p. -5 \<le> variance_days (schedule p) \<and> variance_days (schedule p) < 0) ps"
  have a: "?a = length (filter (\<lambda>p. variance_days (schedule p) < -5) ps)"
    by (simp add: analyze_portfolio_timeline_behind)
  have "health_schedule.projects_behind (schedule_h h) = ?a + length ?mid"
    unfolding s a by (rule length_filter_split)
  then have "health_schedule.projects_behind (schedule_h h) \<noteq> ?a \<longleftrightarrow> ?mid \<noteq> []"
    by simp
  also have "\<dots> \<longleftrightarrow>
      (\<exists>p\<in>set ps. -5 \<le> variance_days (schedule p) \<and> variance_days (schedule p) < 0)"
    by (simp add: filter_empty_conv)
  finally show ?thesis
    using h s a by blast
qed

theorem behind_schedule_cutoffs_witness:
  "[PRJ004\<lparr>schedule := (schedule PRJ004)\<lparr>variance_days := -3\<rparr>\<rparr>] \<noteq> [] \<and>
   (\<exists>h. get_portfolio_health ''t'' [PRJ004\<lparr>schedule := (schedule PRJ004)\<lparr>variance_days := -3\<rparr>\<rparr>]
          = Inr (Success_body ''t'' h, 200) \<and>
        health_schedule.projects_behind (schedule_h h) = 1 \<and>
        timeline_analysis.projects_behind (analyze_portfolio_timeline
          \<lparr>projects = [PRJ004\<lparr>schedule := (schedule PRJ004)\<lparr>variance_days := -3\<rparr>\<rparr>],
           portfolio_health = h\<rparr>) = 0)"
proof -
  let ?p = "PRJ004\<lparr>schedule := (schedule PRJ004)\<lparr>variance_days := -3\<rparr>\<rparr>"
  have ne: "[?p] \<noteq> []" by simp
  from behind_schedule_cutoffs [OF ne, of "''t''"]
  obtain h where "get_portfolio_health ''t'' [?p] = Inr (Success_body ''t'' h, 200)"
    and "health_schedule.projects_behind (schedule_h h) =
       length (filter (\<lambda>p. variance_days (schedule p) < 0) [?p])"
    and "timeline_analysis.projects_behind
         (analyze_portfolio_timeline \<lparr>projects = [?p], portfolio_health = h\<rparr>) =
       length (filter (\<lambda>p. variance_days (schedule p) < -5) [?p])"
    by blast
  then show ?thesis by simp
qed

end
